theory Spec2Isabelle
  imports Complex_Main
begin

section \<open>Python strings and paths\<close>

text \<open>
  The functions of \<^verbatim>\<open>SNData/csp/dr1/_data_parsing.py\<close> work on file names with
  \<^verbatim>\<open>str.lstrip\<close>, \<^verbatim>\<open>str.split\<close>, \<^verbatim>\<open>Path.stem\<close> and the shell-style patterns of
  \<^verbatim>\<open>glob\<close> and \<^verbatim>\<open>Path.rglob\<close>. Strings are character lists.
\<close>

definition lstrip :: "string \<Rightarrow> string \<Rightarrow> string" where
  \<comment> \<open>\<^verbatim>\<open>s.lstrip(chars)\<close>: drops leading characters that belong to the SET \<^verbatim>\<open>chars\<close>.\<close>
  "lstrip chars s = dropWhile (\<lambda>c. c \<in> set chars) s"

fun split :: "char \<Rightarrow> string \<Rightarrow> string list" where
  \<comment> \<open>\<^verbatim>\<open>s.split(sep)\<close> for a one-character separator: never the empty list.\<close>
  "split sep [] = [[]]"
| "split sep (c # cs) =
     (if c = sep then [] # split sep cs
      else (case split sep cs of [] \<Rightarrow> [[c]] | w # ws \<Rightarrow> (c # w) # ws))"

fun rfind :: "char \<Rightarrow> string \<Rightarrow> nat option" where
  \<comment> \<open>\<^verbatim>\<open>s.rfind(c)\<close>: the last index of \<^verbatim>\<open>c\<close>; \<open>None\<close> stands for Python's -1.\<close>
  "rfind c [] = None"
| "rfind c (x # xs) =
     (case rfind c xs of
        Some i \<Rightarrow> Some (Suc i)
      | None \<Rightarrow> if x = c then Some 0 else None)"

definition stem :: "string \<Rightarrow> string" where
  \<comment> \<open>\<^verbatim>\<open>PurePath.stem\<close>: the name without its last suffix.\<close>
  "stem name =
     (case rfind (CHR ''.'') name of
        None \<Rightarrow> name
      | Some i \<Rightarrow> if 0 < i \<and> i < length name - 1 then take i name else name)"

subsection \<open>Shell-style patterns\<close>

text \<open>
  \<^verbatim>\<open>fnmatch.translate\<close> reads a pattern from left to right: \<^verbatim>\<open>*\<close> matches any run of
  characters, \<^verbatim>\<open>?\<close> any one character, \<^verbatim>\<open>[seq]\<close> one character of \<^verbatim>\<open>seq\<close>,
  \<^verbatim>\<open>[!seq]\<close> one character not in \<^verbatim>\<open>seq\<close>; a \<^verbatim>\<open>[\<close> with no closing \<^verbatim>\<open>]\<close> is an
  ordinary character. Inside a class \<^verbatim>\<open>a-z\<close> is a range; the regular-expression
  compiler rejects a pattern with a reversed range such as \<^verbatim>\<open>[z-a]\<close>.
\<close>

datatype glob_item = Star | Quest | Lit char | Cls bool string

fun index_from :: "char \<Rightarrow> string \<Rightarrow> nat \<Rightarrow> nat option" where
  \<comment> \<open>the first index \<open>\<ge> j\<close> at which \<open>c\<close> occurs\<close>
  "index_from c [] j = None"
| "index_from c (x # xs) j =
     (if j = 0 then (if x = c then Some 0 else map_option Suc (index_from c xs 0))
      else map_option Suc (index_from c xs (j - 1)))"

definition class_end :: "string \<Rightarrow> nat option" where
  \<comment> \<open>\<open>cs\<close> is the pattern after a \<^verbatim>\<open>[\<close>: where the class closes, if it does\<close>
  "class_end cs =
     (let j = (if 0 < length cs \<and> cs ! 0 = CHR ''!'' then 1 else 0);
          j' = (if j < length cs \<and> cs ! j = CHR '']'' then j + 1 else j)
      in index_from (CHR '']'') cs j')"

fun translate :: "string \<Rightarrow> glob_item list" where
  "translate [] = []"
| "translate (c # cs) =
     (if c = CHR ''*'' then Star # translate cs
      else if c = CHR ''?'' then Quest # translate cs
      else if c = CHR ''['' then
        (case class_end cs of
           None \<Rightarrow> Lit (CHR ''['') # translate cs
         | Some j \<Rightarrow>
             (let stuff = take j cs
              in (if take 1 stuff = ''!'' then Cls True (drop 1 stuff) else Cls False stuff)
                 # translate (drop (Suc j) cs)))
      else Lit c # translate cs)"

fun class_mem :: "char \<Rightarrow> string \<Rightarrow> bool" where
  "class_mem c (a # m # b # rest) =
     (if m = CHR ''-''
      then ((of_char a :: nat) \<le> of_char c \<and> (of_char c :: nat) \<le> of_char b) \<or> class_mem c rest
      else c = a \<or> class_mem c (m # b # rest))"
| "class_mem c (a # rest) = (c = a \<or> class_mem c rest)"
| "class_mem c [] = False"

fun glob_match :: "glob_item list \<Rightarrow> string \<Rightarrow> bool" where
  "glob_match [] s = (s = [])"
| "glob_match (Star # ps) [] = glob_match ps []"
| "glob_match (Star # ps) (c # s) = (glob_match ps (c # s) \<or> glob_match (Star # ps) s)"
| "glob_match (Quest # ps) [] = False"
| "glob_match (Quest # ps) (c # s) = glob_match ps s"
| "glob_match (Lit a # ps) [] = False"
| "glob_match (Lit a # ps) (c # s) = (a = c \<and> glob_match ps s)"
| "glob_match (Cls neg body # ps) [] = False"
| "glob_match (Cls neg body # ps) (c # s) = ((class_mem c body \<noteq> neg) \<and> glob_match ps s)"

fun class_ok :: "string \<Rightarrow> bool" where
  \<comment> \<open>no range of the class is reversed\<close>
  "class_ok (a # m # b # rest) =
     (if m = CHR ''-'' then (of_char a :: nat) \<le> of_char b \<and> class_ok rest
      else class_ok (m # b # rest))"
| "class_ok rest = True"

fun item_ok :: "glob_item \<Rightarrow> bool" where
  "item_ok (Cls neg body) = class_ok body"
| "item_ok i = True"

definition compiles :: "string \<Rightarrow> bool" where
  \<comment> \<open>\<^verbatim>\<open>re.compile(fnmatch.translate(pat))\<close> raises nothing\<close>
  "compiles pat = list_all item_ok (translate pat)"

definition fnmatch :: "string \<Rightarrow> string \<Rightarrow> bool" where
  \<comment> \<open>\<^verbatim>\<open>fnmatch.fnmatchcase(name, pat)\<close>\<close>
  "fnmatch name pat = glob_match (translate pat) name"

text \<open>
  The store is modelled flat: a directory is the list of its files in the order the
  operating system lists them, with no subdirectories. \<^verbatim>\<open>Path.rglob(pattern)\<close> splits
  the pattern at \<^verbatim>\<open>/\<close> into components and builds one selector per component,
  which fails on a component that holds \<^verbatim>\<open>**\<close> without being \<^verbatim>\<open>**\<close> and on a
  wildcard component that does not compile. A pattern of several components selects
  inside subdirectories, so in a flat directory it selects nothing. \<^verbatim>\<open>rglob\<close> is a
  generator: its exception is raised when the result is first iterated. \<^verbatim>\<open>glob.glob\<close>
  does not list hidden names unless the pattern itself starts with a dot.
\<close>

datatype error =
    DataUnavailable
  | ValueError string
  | UnboundLocalError string
  | IndexError
  | KeyError string
  | ReadError
  | FileNotFoundError string
  | TypeError string
  | PatternError

fun has_star_star :: "string \<Rightarrow> bool" where
  \<comment> \<open>\<^verbatim>\<open>'**' in pat\<close>\<close>
  "has_star_star (a # b # cs) = ((a = CHR ''*'' \<and> b = CHR ''*'') \<or> has_star_star (b # cs))"
| "has_star_star cs = False"

definition is_wildcard_pattern :: "string \<Rightarrow> bool" where
  "is_wildcard_pattern pat =
     (CHR ''*'' \<in> set pat \<or> CHR ''?'' \<in> set pat \<or> CHR ''['' \<in> set pat)"

fun make_selector :: "string list \<Rightarrow> error option" where
  \<comment> \<open>the exception \<^verbatim>\<open>_make_selector\<close> raises for these components, if any\<close>
  "make_selector [] = None"
| "make_selector (pat # child_parts) =
     (if pat = ''**'' then make_selector child_parts
      else if has_star_star pat
      then Some (ValueError ''Invalid pattern: ** can only be an entire path component'')
      else if is_wildcard_pattern pat \<and> \<not> compiles pat then Some PatternError
      else make_selector child_parts)"

definition rglob :: "('a \<Rightarrow> string) \<Rightarrow> 'a list \<Rightarrow> string \<Rightarrow> error + 'a list" where
  "rglob name_of dir pattern =
     (let pattern_parts = filter (\<lambda>x. x \<noteq> [] \<and> x \<noteq> ''.'') (split (CHR ''/'') pattern)
      in case make_selector (''**'' # pattern_parts) of
           Some e \<Rightarrow> Inl e
         | None \<Rightarrow>
             (case pattern_parts of
                [pat] \<Rightarrow>
                  if pat = ''**'' then Inr []
                  else Inr (filter (\<lambda>f. fnmatch (name_of f) pat) dir)
              | _ \<Rightarrow> Inr []))"

definition ishidden :: "string \<Rightarrow> bool" where
  "ishidden p = (take 1 p = ''.'')"

definition glob :: "('a \<Rightarrow> string) \<Rightarrow> 'a list \<Rightarrow> string \<Rightarrow> 'a list" where
  "glob name_of dir pattern =
     filter (\<lambda>f. (ishidden pattern \<or> \<not> ishidden (name_of f)) \<and> fnmatch (name_of f) pattern) dir"

section \<open>Tables and the local store\<close>

text \<open>
  An astropy table: named columns, rows of cells (a cell is \<open>None\<close> where a stacked
  table had no such column), and the \<^verbatim>\<open>meta\<close> dictionary. The type \<open>'f\<close> stands for
  Python's floats.
\<close>

datatype 'f cell = Num 'f | Str string

datatype 'f metaval = MNum 'f | MStr string | MLines "string list"

record 'f table =
  colnames :: "string list"
  rows :: "'f cell option list list"
  meta :: "string \<rightharpoonup> 'f metaval"

record 'f ascii_file =
  comments :: "string list"
  data :: "('f \<times> 'f) list"

text \<open>
  A spectral file has a name and, when the two-column reader accepts it, its comment
  lines and its (wavelength, flux) rows; \<open>None\<close> is a file the reader rejects.
\<close>

record 'f spectrum =
  fname :: string
  fcontent :: "'f ascii_file option"

record ('f, 'c) store =
  fetched :: bool
  table_dir :: "(string \<times> 'c) list"
  spectra_dir :: "'f spectrum list"

definition raise_for_data :: "('f, 'c) store \<Rightarrow> error + unit" where
  \<comment> \<open>Modelled from the spec: \<^verbatim>\<open>_raise_for_data\<close> of \<^verbatim>\<open>_data_download\<close> is not among
      the sources. It fails with \<open>DataUnavailable\<close> when the local store has not been
      fetched and does nothing otherwise.\<close>
  "raise_for_data st = (if fetched st then Inr () else Inl DataUnavailable)"

definition build_pbar :: "'a list \<Rightarrow> bool \<Rightarrow> 'a list" where
  \<comment> \<open>Modelled from the spec: \<^verbatim>\<open>utils.build_pbar\<close> is not among the sources. It only
      decorates the iteration with a progress bar.\<close>
  "build_pbar iterable verbose = iterable"

subsection \<open>Table operations\<close>

definition Table :: "string list \<Rightarrow> 'f table" where
  \<comment> \<open>\<^verbatim>\<open>Table(names=..., dtype=...)\<close>: the columns, no rows, empty \<^verbatim>\<open>meta\<close>\<close>
  "Table names = \<lparr>colnames = names, rows = [], meta = Map.empty\<rparr>"

definition Table_read :: "'f spectrum \<Rightarrow> error + 'f table" where
  \<comment> \<open>\<^verbatim>\<open>Table.read(f, format='ascii', names=['wavelength', 'flux'])\<close>; the reader sets
      \<^verbatim>\<open>meta['comments']\<close> only when the file has comment lines\<close>
  "Table_read f =
     (case fcontent f of
        None \<Rightarrow> Inl ReadError
      | Some c \<Rightarrow>
          Inr \<lparr>colnames = [''wavelength'', ''flux''],
               rows = map (\<lambda>(w, fl). [Some (Num w), Some (Num fl)]) (data c),
               meta = (if comments c = [] then Map.empty
                       else [''comments'' \<mapsto> MLines (comments c)])\<rparr>)"

definition Column :: "'a list \<Rightarrow> string \<Rightarrow> string \<times> 'a list" where
  "Column dat name = (name, dat)"

definition full :: "nat \<Rightarrow> 'a \<Rightarrow> 'a list" where
  \<comment> \<open>\<^verbatim>\<open>np.full(n, v)\<close>\<close>
  "full n v = replicate n v"

definition add_columns :: "'f table \<Rightarrow> (string \<times> 'f cell list) list \<Rightarrow> 'f table" where
  "add_columns t cols =
     t\<lparr>colnames := colnames t @ map fst cols,
       rows := map (\<lambda>(i, r). r @ map (\<lambda>c. Some (snd c ! i)) cols)
                   (zip [0..<length (rows t)] (rows t))\<rparr>"

definition merge_meta :: "(string \<rightharpoonup> 'f metaval) \<Rightarrow> (string \<rightharpoonup> 'f metaval) \<Rightarrow> (string \<rightharpoonup> 'f metaval)" where
  \<comment> \<open>\<^verbatim>\<open>metadata.merge\<close>: lists are concatenated, otherwise the right value wins\<close>
  "merge_meta l r =
     (\<lambda>k. case r k of
             None \<Rightarrow> l k
           | Some y \<Rightarrow>
               (case l k of
                  Some (MLines a) \<Rightarrow> (case y of MLines b \<Rightarrow> Some (MLines (a @ b)) | _ \<Rightarrow> Some y)
                | _ \<Rightarrow> Some y))"

definition realign :: "string list \<Rightarrow> string list \<Rightarrow> 'f cell option list \<Rightarrow> 'f cell option list" where
  \<comment> \<open>a row of a table with columns \<open>have\<close>, laid out along the columns \<open>want\<close>\<close>
  "realign want have r =
     map (\<lambda>n. case map_of (zip have r) n of None \<Rightarrow> None | Some c \<Rightarrow> c) want"

definition vstack :: "'f table \<Rightarrow> 'f table \<Rightarrow> 'f table" where
  \<comment> \<open>\<^verbatim>\<open>vstack([a, b])\<close> with the default outer join: columns are matched by name, in
      the order of \<open>a\<close> followed by the new columns of \<open>b\<close>\<close>
  "vstack a b =
     (let names = colnames a @ filter (\<lambda>n. n \<notin> set (colnames a)) (colnames b)
      in \<lparr>colnames = names,
          rows = map (realign names (colnames a)) (rows a)
               @ map (realign names (colnames b)) (rows b),
          meta = merge_meta (meta a) (meta b)\<rparr>)"

definition table_truthy :: "'f table \<Rightarrow> bool" where
  \<comment> \<open>a table in a condition is its \<^verbatim>\<open>__len__\<close>: true when it has rows\<close>
  "table_truthy t = (rows t \<noteq> [])"

definition generator_truthy :: "'a \<Rightarrow> bool" where
  \<comment> \<open>\<^verbatim>\<open>rglob\<close> returns a generator object, and a generator in a condition is true
      whatever it will yield\<close>
  "generator_truthy g = True"

definition bound_method_truthy :: bool where
  \<comment> \<open>\<^verbatim>\<open>table_path.exists\<close> without parentheses is a bound method object, true in a
      condition\<close>
  "bound_method_truthy = True"

section \<open>The module \<^verbatim>\<open>_data_parsing\<close>\<close>

text \<open>
  The built-in conversions \<^verbatim>\<open>float(...)\<close> and \<^verbatim>\<open>int(...)\<close> are parameters of the
  model (\<open>to_float\<close>, \<open>to_int\<close>): they return \<open>None\<close> where Python raises
  \<^verbatim>\<open>ValueError\<close>. Every result below holds for any such conversion.
\<close>

fun traverse :: "('a \<Rightarrow> error + 'b) \<Rightarrow> 'a list \<Rightarrow> error + 'b list" where
  \<comment> \<open>a loop that appends one result per element and stops at the first exception\<close>
  "traverse g [] = Inr []"
| "traverse g (x # xs) =
     (case g x of
        Inl e \<Rightarrow> Inl e
      | Inr y \<Rightarrow> (case traverse g xs of Inl e \<Rightarrow> Inl e | Inr ys \<Rightarrow> Inr (y # ys)))"

definition get_available_tables ::
  "(string \<Rightarrow> int option) \<Rightarrow> ('f, 'c) store \<Rightarrow> error + int list" where
  "get_available_tables to_int st =
     (case rglob fst (table_dir st) ''table*.dat'' of
        Inl e \<Rightarrow> Inl e
      | Inr files \<Rightarrow>
          traverse
            (\<lambda>f. case to_int (lstrip ''table'' (stem (fst f))) of
                    None \<Rightarrow> Inl (ValueError ''invalid literal for int()'')
                  | Some n \<Rightarrow> Inr n)
            files)"

fun str_nat :: "nat \<Rightarrow> string" where
  "str_nat n =
     (if n < 10 then [''0123456789'' ! n]
      else str_nat (n div 10) @ [''0123456789'' ! (n mod 10)])"

declare str_nat.simps [simp del]

definition str_int :: "int \<Rightarrow> string" where
  \<comment> \<open>how an f-string renders an integer\<close>
  "str_int i = (if i < 0 then CHR ''-'' # str_nat (nat (- i)) else str_nat (nat i))"

definition ascii_read :: "('f, 'c) store \<Rightarrow> string \<Rightarrow> error + 'c" where
  \<comment> \<open>\<^verbatim>\<open>ascii.read(path, format='cds', readme=...)\<close>: the schema-described reader is
      a black box; it returns the content of an existing file and fails on a path that
      does not exist\<close>
  "ascii_read st name =
     (case map_of (table_dir st) name of
        None \<Rightarrow> Inl (FileNotFoundError name)
      | Some c \<Rightarrow> Inr c)"

definition load_table :: "('f, 'c) store \<Rightarrow> int \<Rightarrow> error + 'c" where
  "load_table st table_num =
     (case raise_for_data st of
        Inl e \<Rightarrow> Inl e
      | Inr _ \<Rightarrow>
          (let table_path = ''table'' @ str_int table_num @ ''.dat''
           in if \<not> bound_method_truthy
              then Inl (ValueError (''Table '' @ str_int table_num @ '' is not available.''))
              else ascii_read st table_path))"

definition get_available_ids :: "('f, 'c) store \<Rightarrow> error + string list" where
  \<comment> \<open>\<^verbatim>\<open>list(set(ids))\<close>: the distinct ids; Python fixes no order, the model keeps the
      order of \<open>remdups\<close>\<close>
  "get_available_ids st =
     (case raise_for_data st of
        Inl e \<Rightarrow> Inl e
      | Inr _ \<Rightarrow>
          (let files = glob fname (spectra_dir st) ''SN*.dat''
           in Inr (remdups
                (map (\<lambda>f. ''20'' @ lstrip ''SN'' (hd (split (CHR ''_'') (fname f)))) files))))"

definition header_value ::
  "(string \<Rightarrow> 'f option) \<Rightarrow> string list \<Rightarrow> nat \<Rightarrow> string \<Rightarrow> error + 'f" where
  \<comment> \<open>\<^verbatim>\<open>float(file_comments[i].lstrip(label))\<close>\<close>
  "header_value to_float file_comments i label =
     (if i < length file_comments
      then (case to_float (lstrip label (file_comments ! i)) of
              None \<Rightarrow> Inl (ValueError ''could not convert string to float'')
            | Some v \<Rightarrow> Inr v)
      else Inl IndexError)"

definition spectral_table ::
  "(string \<Rightarrow> 'f option) \<Rightarrow> 'f spectrum \<Rightarrow> error + ('f table \<times> 'f \<times> 'f)" where
  \<comment> \<open>the body of the loop of \<^verbatim>\<open>get_data_for_id\<close> up to \<^verbatim>\<open>add_columns\<close>: the table of
      one file with its five extra columns, and the values the body leaves in the
      variables \<^verbatim>\<open>redshift\<close> and \<^verbatim>\<open>max_date\<close>\<close>
  "spectral_table to_float f =
     (case Table_read f of
        Inl e \<Rightarrow> Inl e
      | Inr spectral_data \<Rightarrow>
     (case meta spectral_data ''comments'' of
        Some (MLines file_comments) \<Rightarrow>
     (case header_value to_float file_comments 1 ''Redshift: '' of
        Inl e \<Rightarrow> Inl e
      | Inr redshift \<Rightarrow>
     (case header_value to_float file_comments 2 ''JDate_of_max: '' of
        Inl e \<Rightarrow> Inl e
      | Inr max_date \<Rightarrow>
     (case header_value to_float file_comments 3 ''JDate_of_observation: '' of
        Inl e \<Rightarrow> Inl e
      | Inr obs_date \<Rightarrow>
     (case header_value to_float file_comments 4 ''Epoch: '' of
        Inl e \<Rightarrow> Inl e
      | Inr epoch \<Rightarrow>
     (case split (CHR ''_'') (stem (fname f)) of
        [_, _, wrange, telescope, instrument] \<Rightarrow>
          (let n = length (rows spectral_data);
               date_col = Column (full n (Num obs_date)) ''date'';
               epoch_col = Column (full n (Num epoch)) ''epoch'';
               wr_col = Column (full n (Str wrange)) ''wavelength_range'';
               tel_col = Column (full n (Str telescope)) ''telescope'';
               inst_col = Column (full n (Str instrument)) ''instrument''
           in Inr (add_columns spectral_data [date_col, epoch_col, wr_col, tel_col, inst_col],
                   redshift, max_date))
      | _ \<Rightarrow> Inl (ValueError ''wrong number of values to unpack''))))))
      | _ \<Rightarrow> Inl (KeyError ''comments'')))"

text \<open>
  The local variables of \<^verbatim>\<open>get_data_for_id\<close> that the loop assigns. \<^verbatim>\<open>redshift\<close> and
  \<^verbatim>\<open>max_date\<close> are unbound (\<open>None\<close>) until the body has run once.
\<close>

record 'f locals =
  out_table :: "'f table"
  redshift :: "'f option"
  max_date :: "'f option"

fun for_files :: "(string \<Rightarrow> 'f option) \<Rightarrow> 'f spectrum list \<Rightarrow> 'f locals \<Rightarrow> error + 'f locals" where
  "for_files to_float [] l = Inr l"
| "for_files to_float (f # files) l =
     (case spectral_table to_float f of
        Inl e \<Rightarrow> Inl e
      | Inr (spectral_data, r, m) \<Rightarrow>
          for_files to_float files
            \<lparr>out_table = vstack (out_table l) spectral_data,
             redshift = Some r, max_date = Some m\<rparr>)"

definition get_data_for_id ::
  "(string \<Rightarrow> 'f option) \<Rightarrow> ('f, 'c) store \<Rightarrow> string \<Rightarrow> error + 'f table" where
  "get_data_for_id to_float st obj_id =
     (case raise_for_data st of
        Inl e \<Rightarrow> Inl e
      | Inr _ \<Rightarrow>
          (let out = Table [''date'', ''wavelength'', ''flux'', ''epoch'',
                            ''wavelength_range'', ''telescope'', ''instrument''];
               files = rglob fname (spectra_dir st) (''SN'' @ drop 2 obj_id @ ''_*.dat'')
           in if \<not> generator_truthy files
              then Inl (ValueError (''No data found for obj_id '' @ obj_id))
              else
                (case files of
                   Inl e \<Rightarrow> Inl e
                 | Inr fs \<Rightarrow>
                (case for_files to_float fs
                        \<lparr>out_table = out, redshift = None, max_date = None\<rparr> of
                   Inl e \<Rightarrow> Inl e
                 | Inr l \<Rightarrow>
                     (case redshift l of
                        None \<Rightarrow> Inl (UnboundLocalError ''redshift'')
                      | Some r \<Rightarrow>
                     (case max_date l of
                        None \<Rightarrow> Inl (UnboundLocalError ''max_date'')
                      | Some m \<Rightarrow>
                          Inr ((out_table l)
                                \<lparr>meta := (meta (out_table l))
                                   (''redshift'' \<mapsto> MNum r,
                                    ''JDate_of_max'' \<mapsto> MNum m,
                                    ''obj_id'' \<mapsto> MStr obj_id)\<rparr>)))))))"

text \<open>
  \<^verbatim>\<open>iter_data\<close> is a generator: the model returns the tables it yields, in order, and
  the exception that ends it, if one does.
\<close>

fun for_ids ::
  "(string \<Rightarrow> 'f option) \<Rightarrow> ('f, 'c) store \<Rightarrow> string list \<Rightarrow> 'f table list \<times> error option" where
  "for_ids to_float st [] = ([], None)"
| "for_ids to_float st (id_val # ids) =
     (case get_data_for_id to_float st id_val of
        Inl e \<Rightarrow> ([], Some e)
      | Inr data_table \<Rightarrow>
          (let (ys, e) = for_ids to_float st ids
           in (if table_truthy data_table then data_table # ys else ys, e)))"

definition iter_data ::
  "(string \<Rightarrow> 'f option) \<Rightarrow> ('f, 'c) store \<Rightarrow> bool \<Rightarrow> 'f table list \<times> error option" where
  "iter_data to_float st verbose =
     (case get_available_ids st of
        Inl e \<Rightarrow> ([], Some e)
      | Inr ids \<Rightarrow> for_ids to_float st (build_pbar ids verbose))"

subsection \<open>Calling \<^verbatim>\<open>iter_data\<close> with keyword arguments\<close>

text \<open>
  \<^verbatim>\<open>def iter_data(verbose=False)\<close> has one parameter. Python binds the keyword
  arguments of a call to the parameters by name and raises \<^verbatim>\<open>TypeError\<close> for a
  keyword that names none of them, before the body runs.
\<close>

datatype 'f argument = ArgBool bool | ArgPredicate "'f table \<Rightarrow> bool"

definition iter_data_parameters :: "string list" where
  "iter_data_parameters = [''verbose'']"

definition call_iter_data ::
  "(string \<Rightarrow> 'f option) \<Rightarrow> ('f, 'c) store \<Rightarrow> (string \<times> 'f argument) list
     \<Rightarrow> error + ('f table list \<times> error option)" where
  "call_iter_data to_float st kwargs =
     (case filter (\<lambda>k. k \<notin> set iter_data_parameters) (map fst kwargs) of
        k # _ \<Rightarrow> Inl (TypeError (''iter_data() got an unexpected keyword argument '' @ k))
      | [] \<Rightarrow>
          Inr (iter_data to_float st
                 (case map_of kwargs ''verbose'' of Some (ArgBool b) \<Rightarrow> b | _ \<Rightarrow> False)))"

section \<open>Notions used in the statements\<close>

definition matching_files :: "('f, 'c) store \<Rightarrow> string \<Rightarrow> 'f spectrum list" where
  \<comment> \<open>the files \<^verbatim>\<open>get_data_for_id\<close> iterates over, in the order of the listing (none
      when the pattern is rejected)\<close>
  "matching_files st obj_id =
     (case rglob fname (spectra_dir st) (''SN'' @ drop 2 obj_id @ ''_*.dat'') of
        Inl _ \<Rightarrow> []
      | Inr files \<Rightarrow> files)"

definition parses :: "(string \<Rightarrow> 'f option) \<Rightarrow> 'f spectrum \<Rightarrow> bool" where
  \<comment> \<open>the loop body raises nothing on this file\<close>
  "parses to_float f = (case spectral_table to_float f of Inl _ \<Rightarrow> False | Inr _ \<Rightarrow> True)"

definition nrows :: "'f spectrum \<Rightarrow> nat" where
  \<comment> \<open>the number of data rows of a spectral file\<close>
  "nrows f = (case fcontent f of None \<Rightarrow> 0 | Some c \<Rightarrow> length (data c))"

definition file_data :: "'f spectrum \<Rightarrow> ('f \<times> 'f) list" where
  \<comment> \<open>the (wavelength, flux) rows of a spectral file\<close>
  "file_data f = (case fcontent f of None \<Rightarrow> [] | Some c \<Rightarrow> data c)"

definition out_names :: "string list" where
  \<comment> \<open>the columns of \<^verbatim>\<open>out_table\<close>\<close>
  "out_names = [''date'', ''wavelength'', ''flux'', ''epoch'',
                ''wavelength_range'', ''telescope'', ''instrument'']"

definition file_names :: "string list" where
  \<comment> \<open>the columns of the table of one file after \<^verbatim>\<open>add_columns\<close>\<close>
  "file_names = [''wavelength'', ''flux'', ''date'', ''epoch'',
                 ''wavelength_range'', ''telescope'', ''instrument'']"

definition tagged_rows :: "(string \<Rightarrow> 'f option) \<Rightarrow> 'f spectrum \<Rightarrow> 'f cell option list list" where
  \<comment> \<open>the rows one file adds to \<^verbatim>\<open>out_table\<close>: its table, laid out along \<open>out_names\<close>\<close>
  "tagged_rows to_float f =
     (case spectral_table to_float f of
        Inl _ \<Rightarrow> []
      | Inr (sd, _, _) \<Rightarrow> map (realign out_names (colnames sd)) (rows sd))"

definition plain_item :: "char \<Rightarrow> glob_item" where
  \<comment> \<open>what \<open>translate\<close> makes of a character other than \<^verbatim>\<open>[\<close>\<close>
  "plain_item c = (if c = CHR ''*'' then Star else if c = CHR ''?'' then Quest else Lit c)"

definition column :: "'f table \<Rightarrow> string \<Rightarrow> 'f cell option list" where
  \<comment> \<open>\<^verbatim>\<open>t[name]\<close>: the cells of one column, top to bottom\<close>
  "column t name = map (\<lambda>r. realign [name] (colnames t) r ! 0) (rows t)"

subsection \<open>A decimal reading of \<^verbatim>\<open>float\<close>\<close>

text \<open>
  For the concrete scenarios \<open>to_float\<close> is instantiated by \<open>dec_float\<close>, which reads a
  plain decimal literal (optional sign, digits, optional fraction) as the rational
  number it denotes and rejects everything else.
\<close>

definition digit_val :: "char \<Rightarrow> nat option" where
  "digit_val c =
     (let n = of_char c :: nat in if 48 \<le> n \<and> n \<le> 57 then Some (n - 48) else None)"

fun digits_val :: "string \<Rightarrow> nat \<Rightarrow> nat option" where
  "digits_val [] acc = Some acc"
| "digits_val (c # cs) acc =
     (case digit_val c of None \<Rightarrow> None | Some d \<Rightarrow> digits_val cs (10 * acc + d))"

definition dec_float :: "string \<Rightarrow> rat option" where
  "dec_float s =
     (let neg = (take 1 s = ''-'');
          u = (if take 1 s = ''-'' \<or> take 1 s = ''+'' then drop 1 s else s);
          ip = takeWhile (\<lambda>c. c \<noteq> CHR ''.'') u;
          fp = drop 1 (dropWhile (\<lambda>c. c \<noteq> CHR ''.'') u)
      in if ip @ fp = [] then None
         else (case digits_val (ip @ fp) 0 of
                 None \<Rightarrow> None
               | Some n \<Rightarrow> Some ((if neg then - 1 else 1) * of_nat n / 10 ^ length fp)))"

subsection \<open>Example stores\<close>

definition header :: "string \<Rightarrow> string list" where
  \<comment> \<open>the comment lines of the scenario: a first line, then the four values\<close>
  "header first_line = [first_line, ''Redshift: 0.01'', ''JDate_of_max: 2451200.0'',
             ''JDate_of_observation: 2451210.5'', ''Epoch: 10.5'']"

definition spectrum_file :: "string \<Rightarrow> string list \<Rightarrow> ('f \<times> 'f) list \<Rightarrow> 'f spectrum" where
  "spectrum_file name lines dat =
     \<lparr>fname = name, fcontent = Some \<lparr>comments = lines, data = dat\<rparr>\<rparr>"

definition store_of :: "'f spectrum list \<Rightarrow> ('f, unit) store" where
  \<comment> \<open>a fetched store with one published table and the given spectral files\<close>
  "store_of files = \<lparr>fetched = True, table_dir = [(''table1.dat'', ())], spectra_dir = files\<rparr>"

definition header_at :: "string \<Rightarrow> string \<Rightarrow> string list" where
  \<comment> \<open>comment lines with the given redshift and date of maximum\<close>
  "header_at z tmax = [''SN spectrum'', ''Redshift: '' @ z, ''JDate_of_max: '' @ tmax,
             ''JDate_of_observation: 2453280.5'', ''Epoch: 10.5'']"

definition file_a :: "rat spectrum" where
  "file_a = spectrum_file ''SN04ef_b01_opt_du_wf.dat'' (header_at ''0.01'' ''2453264.0'')
              [(4000, 1), (4001, 2)]"

definition file_b :: "rat spectrum" where
  "file_b = spectrum_file ''SN04ef_b02_ir_bd_ld.dat'' (header_at ''0.02'' ''2453265.5'')
              [(9000, 3)]"

definition file_c :: "rat spectrum" where
  "file_c = spectrum_file ''SN05kc_b01_opt_du_wf.dat'' (header_at ''0.03'' ''2453700.0'') []"

definition example_store :: "(rat, unit) store" where
  \<comment> \<open>two spectra of one object, which disagree on the redshift, and an object whose
      only file has no rows\<close>
  "example_store = store_of [file_a, file_b, file_c]"

definition file_a_table :: "rat table" where
  \<comment> \<open>the table the loop body builds from \<open>file_a\<close>\<close>
  "file_a_table =
     \<lparr>colnames = [''wavelength'', ''flux'', ''date'', ''epoch'',
                  ''wavelength_range'', ''telescope'', ''instrument''],
      rows = [[Some (Num 4000), Some (Num 1), Some (Num (24532805 / 10)),
               Some (Num (105 / 10)), Some (Str ''opt''), Some (Str ''du''), Some (Str ''wf'')],
              [Some (Num 4001), Some (Num 2), Some (Num (24532805 / 10)),
               Some (Num (105 / 10)), Some (Str ''opt''), Some (Str ''du''), Some (Str ''wf'')]],
      meta = [''comments'' \<mapsto> MLines (header_at ''0.01'' ''2453264.0'')]\<rparr>"

definition file_d :: "rat spectrum" where
  \<comment> \<open>a spectral file whose object suffix holds a character class\<close>
  "file_d = spectrum_file ''SN[a]_b01_opt_du_wf.dat'' (header_at ''0.01'' ''2453264.0'')
              [(4000, 1)]"

definition scenario_opt :: "(rat \<times> rat) list" where
  "scenario_opt = [(4000, 1), (4001, 2), (4002, 3)]"

definition scenario_ir :: "(rat \<times> rat) list" where
  "scenario_ir = [(9000, 4), (9001, 5), (9002, 6)]"

section \<open>Properties of the table operations and of the loop over the files\<close>

lemma add_columns_full_rows:
  "rows (add_columns t [Column (full (length (rows t)) v1) n1, Column (full (length (rows t)) v2) n2,
      Column (full (length (rows t)) v3) n3, Column (full (length (rows t)) v4) n4,
      Column (full (length (rows t)) v5) n5])
   = map (\<lambda>r. r @ [Some v1, Some v2, Some v3, Some v4, Some v5]) (rows t)"
proof -
  let ?n = "length (rows t)"
  have "map (\<lambda>(i, r). g i r) (zip [0..<?n] (rows t)) = map h (rows t)"
    if "\<And>i. i < ?n \<Longrightarrow> g i (rows t ! i) = h (rows t ! i)"
    for g :: "nat \<Rightarrow> 'a cell option list \<Rightarrow> 'a cell option list" and h
    using that by (intro nth_equalityI) simp_all
  then show ?thesis
    by (simp add: add_columns_def Column_def full_def)
qed

lemma add_columns_colnames:
  "colnames (add_columns t cols) = colnames t @ map fst cols"
  by (simp add: add_columns_def)

lemma add_columns_meta: "meta (add_columns t cols) = meta t"
  by (simp add: add_columns_def)

lemma spectral_table_Inr:
  assumes "spectral_table tf f = Inr (t, r, m)"
  shows "\<exists>c obs ep a b wr tel ins.
           fcontent f = Some c
         \<and> header_value tf (comments c) 1 ''Redshift: '' = Inr r
         \<and> header_value tf (comments c) 2 ''JDate_of_max: '' = Inr m
         \<and> header_value tf (comments c) 3 ''JDate_of_observation: '' = Inr obs
         \<and> header_value tf (comments c) 4 ''Epoch: '' = Inr ep
         \<and> split (CHR ''_'') (stem (fname f)) = [a, b, wr, tel, ins]
         \<and> colnames t = file_names
         \<and> rows t = map (\<lambda>(w, fl). [Some (Num w), Some (Num fl), Some (Num obs), Some (Num ep),
                                     Some (Str wr), Some (Str tel), Some (Str ins)]) (data c)
         \<and> meta t = [''comments'' \<mapsto> MLines (comments c)]"
proof -
  from assms obtain c where c: "fcontent f = Some c"
    by (auto simp: spectral_table_def Table_read_def split: option.splits)
  define sd :: "'a table" where "sd = \<lparr>colnames = [''wavelength'', ''flux''],
               rows = map (\<lambda>(w, fl). [Some (Num w), Some (Num fl)]) (data c),
               meta = (if comments c = [] then Map.empty
                       else [''comments'' \<mapsto> MLines (comments c)])\<rparr>"
  have rd: "Table_read f = Inr sd" by (simp add: Table_read_def c sd_def)
  from assms rd have ne: "comments c \<noteq> []"
    by (auto simp: spectral_table_def sd_def split: if_splits)
  then have mc: "meta sd ''comments'' = Some (MLines (comments c))" by (simp add: sd_def)
  from assms obtain obs ep a b wr tel ins where
    h: "header_value tf (comments c) 1 ''Redshift: '' = Inr r"
       "header_value tf (comments c) 2 ''JDate_of_max: '' = Inr m"
       "header_value tf (comments c) 3 ''JDate_of_observation: '' = Inr obs"
       "header_value tf (comments c) 4 ''Epoch: '' = Inr ep"
       "split (CHR ''_'') (stem (fname f)) = [a, b, wr, tel, ins]"
    and t: "t = add_columns sd [Column (full (length (rows sd)) (Num obs)) ''date'',
             Column (full (length (rows sd)) (Num ep)) ''epoch'',
             Column (full (length (rows sd)) (Str wr)) ''wavelength_range'',
             Column (full (length (rows sd)) (Str tel)) ''telescope'',
             Column (full (length (rows sd)) (Str ins)) ''instrument'']"
    by (simp add: spectral_table_def rd mc Let_def split: sum.splits list.splits)
  have "rows t = map (\<lambda>r. r @ [Some (Num obs), Some (Num ep), Some (Str wr), Some (Str tel), Some (Str ins)]) (rows sd)"
    unfolding t by (rule add_columns_full_rows)
  then have rows: "rows t = map (\<lambda>(w, fl). [Some (Num w), Some (Num fl), Some (Num obs), Some (Num ep),
                                     Some (Str wr), Some (Str tel), Some (Str ins)]) (data c)"
    by (simp add: sd_def case_prod_beta)
  have cn: "colnames t = file_names"
    unfolding t by (simp add: add_columns_colnames sd_def Column_def file_names_def)
  have mt: "meta t = [''comments'' \<mapsto> MLines (comments c)]"
    unfolding t using ne by (simp add: add_columns_meta sd_def)
  from c h rows cn mt show ?thesis by blast
qed

lemma vstack_length: "length (rows (vstack a b)) = length (rows a) + length (rows b)"
  by (simp add: vstack_def Let_def)

lemma vstack_meta: "meta (vstack a b) = merge_meta (meta a) (meta b)"
  by (simp add: vstack_def Let_def)

lemma realign_same:
  assumes "distinct ns" and "length r = length ns"
  shows "realign ns ns r = r"
proof (rule nth_equalityI)
  show "length (realign ns ns r) = length r" using assms by (simp add: realign_def)
next
  fix i assume "i < length (realign ns ns r)"
  then have i: "i < length ns" by (simp add: realign_def)
  with assms have "map_of (zip ns r) (ns ! i) = Some (r ! i)"
    by (simp add: map_of_zip_nth)
  with i show "realign ns ns r ! i = r ! i" by (simp add: realign_def)
qed

lemma realign_file_row:
  "realign out_names file_names [w, fl, obs, ep, wr, tel, ins] = [obs, w, fl, ep, wr, tel, ins]"
  by (simp add: realign_def out_names_def file_names_def)

lemma vstack_out_colnames:
  "colnames a = out_names \<Longrightarrow> colnames b = file_names \<Longrightarrow> colnames (vstack a b) = out_names"
  by (simp add: vstack_def Let_def out_names_def file_names_def)

lemma vstack_out_rows:
  assumes "colnames a = out_names" and "colnames b = file_names"
    and "\<forall>r\<in>set (rows a). length r = 7"
  shows "rows (vstack a b) = rows a @ map (realign out_names file_names) (rows b)"
proof -
  have d: "distinct out_names" by (simp add: out_names_def)
  have l: "length out_names = 7" by (simp add: out_names_def)
  have "map (realign out_names out_names) (rows a) = rows a"
    using assms(3) by (simp add: map_idI realign_same [OF d] l)
  moreover have "colnames (vstack a b) = out_names"
    using assms by (simp add: vstack_out_colnames)
  ultimately show ?thesis using assms(1,2)
    by (simp add: vstack_def Let_def out_names_def file_names_def)
qed

lemma tagged_rows_Inr:
  assumes "spectral_table tf f = Inr (t, r, m)"
  shows "\<exists>c obs ep a b wr tel ins.
           fcontent f = Some c
         \<and> header_value tf (comments c) 3 ''JDate_of_observation: '' = Inr obs
         \<and> header_value tf (comments c) 4 ''Epoch: '' = Inr ep
         \<and> split (CHR ''_'') (stem (fname f)) = [a, b, wr, tel, ins]
         \<and> tagged_rows tf f = map (\<lambda>(w, fl). [Some (Num obs), Some (Num w), Some (Num fl), Some (Num ep),
                                     Some (Str wr), Some (Str tel), Some (Str ins)]) (data c)"
proof -
  from spectral_table_Inr [OF assms] obtain c obs ep a b wr tel ins where
    c: "fcontent f = Some c"
    and h: "header_value tf (comments c) 3 ''JDate_of_observation: '' = Inr obs"
       "header_value tf (comments c) 4 ''Epoch: '' = Inr ep"
       "split (CHR ''_'') (stem (fname f)) = [a, b, wr, tel, ins]"
    and cn: "colnames t = file_names"
    and rows: "rows t = map (\<lambda>(w, fl). [Some (Num w), Some (Num fl), Some (Num obs), Some (Num ep),
                                     Some (Str wr), Some (Str tel), Some (Str ins)]) (data c)"
    by blast
  have "tagged_rows tf f = map (realign out_names file_names) (rows t)"
    by (simp add: tagged_rows_def assms cn)
  also have "\<dots> = map (\<lambda>(w, fl). [Some (Num obs), Some (Num w), Some (Num fl), Some (Num ep),
                                     Some (Str wr), Some (Str tel), Some (Str ins)]) (data c)"
    unfolding rows by (simp add: realign_file_row case_prod_beta)
  finally show ?thesis using c h by blast
qed

lemma tagged_rows_length7:
  "r \<in> set (tagged_rows tf f) \<Longrightarrow> length r = 7"
  by (auto simp: tagged_rows_def realign_def out_names_def split: sum.splits)

lemma for_files_rows:
  assumes "for_files tf files l = Inr l'"
    and "colnames (out_table l) = out_names"
    and "\<forall>r\<in>set (rows (out_table l)). length r = 7"
  shows "colnames (out_table l') = out_names
       \<and> rows (out_table l') = rows (out_table l) @ concat (map (tagged_rows tf) files)"
  using assms
proof (induction files arbitrary: l)
  case Nil
  then show ?case by simp
next
  case (Cons f files)
  from Cons.prems(1) obtain sd r m where
    sd: "spectral_table tf f = Inr (sd, r, m)"
    and rest: "for_files tf files \<lparr>out_table = vstack (out_table l) sd,
             redshift = Some r, max_date = Some m\<rparr> = Inr l'"
    by (auto split: sum.splits)
  from spectral_table_Inr [OF sd] have cn: "colnames sd = file_names" by blast
  have tr: "tagged_rows tf f = map (realign out_names file_names) (rows sd)"
    by (simp add: tagged_rows_def sd cn)
  have vr: "rows (vstack (out_table l) sd) = rows (out_table l) @ tagged_rows tf f"
    using vstack_out_rows [OF Cons.prems(2) cn Cons.prems(3)] tr by simp
  have vc: "colnames (vstack (out_table l) sd) = out_names"
    using vstack_out_colnames [OF Cons.prems(2) cn] .
  have v7: "\<forall>r\<in>set (rows (vstack (out_table l) sd)). length r = 7"
    unfolding vr using Cons.prems(3) tagged_rows_length7 [of _ tf f] by auto
  from Cons.IH [OF rest] vc v7 vr show ?case by simp
qed

lemma spectral_table_nrows:
  "spectral_table tf f = Inr (t, r, m) \<Longrightarrow> length (rows t) = nrows f"
  using spectral_table_Inr [of tf f t r m] by (auto simp: nrows_def)

lemma for_files_length:
  "for_files tf files l = Inr l' \<Longrightarrow>
     length (rows (out_table l')) = length (rows (out_table l)) + sum_list (map nrows files)"
proof (induction files arbitrary: l)
  case Nil
  then show ?case by simp
next
  case (Cons f files)
  from Cons.prems obtain sd r m where
    sd: "spectral_table tf f = Inr (sd, r, m)"
    and rest: "for_files tf files \<lparr>out_table = vstack (out_table l) sd,
             redshift = Some r, max_date = Some m\<rparr> = Inr l'"
    by (auto split: sum.splits)
  from Cons.IH [OF rest] spectral_table_nrows [OF sd] show ?case
    by (simp add: vstack_length)
qed

lemma for_files_last:
  "for_files tf files l = Inr l' \<Longrightarrow> files \<noteq> [] \<Longrightarrow>
     \<exists>sd r m. spectral_table tf (last files) = Inr (sd, r, m)
             \<and> redshift l' = Some r \<and> max_date l' = Some m"
proof (induction files arbitrary: l)
  case Nil
  then show ?case by simp
next
  case (Cons f files)
  from Cons.prems(1) obtain sd r m where
    sd: "spectral_table tf f = Inr (sd, r, m)"
    and rest: "for_files tf files \<lparr>out_table = vstack (out_table l) sd,
             redshift = Some r, max_date = Some m\<rparr> = Inr l'"
    by (auto split: sum.splits)
  show ?case
  proof (cases "files = []")
    case True
    with sd rest show ?thesis by auto
  next
    case False
    with Cons.IH [OF rest] show ?thesis by simp
  qed
qed

lemma for_files_total:
  "list_all (parses tf) files \<Longrightarrow> \<exists>l'. for_files tf files l = Inr l'"
  by (induction files arbitrary: l) (auto simp: parses_def split: sum.splits)

lemma for_files_parses:
  "for_files tf files l = Inr l' \<Longrightarrow> list_all (parses tf) files"
  by (induction files arbitrary: l) (auto simp: parses_def split: sum.splits)

lemma get_data_for_id_Inr:
  assumes "get_data_for_id tf st obj_id = Inr t"
  shows "\<exists>l r m. fetched st
       \<and> for_files tf (matching_files st obj_id)
            \<lparr>out_table = Table out_names, redshift = None, max_date = None\<rparr> = Inr l
       \<and> redshift l = Some r \<and> max_date l = Some m
       \<and> t = (out_table l)\<lparr>meta := (meta (out_table l))
                 (''redshift'' \<mapsto> MNum r, ''JDate_of_max'' \<mapsto> MNum m, ''obj_id'' \<mapsto> MStr obj_id)\<rparr>"
  using assms
  by (auto simp: get_data_for_id_def raise_for_data_def generator_truthy_def Let_def
      matching_files_def out_names_def split: if_splits sum.splits option.splits)

lemma get_data_for_id_fetched:
  assumes "fetched st"
    and "for_files tf (matching_files st obj_id)
            \<lparr>out_table = Table out_names, redshift = None, max_date = None\<rparr> = Inr l"
    and "redshift l = Some r" and "max_date l = Some m"
  shows "get_data_for_id tf st obj_id = Inr ((out_table l)\<lparr>meta := (meta (out_table l))
                 (''redshift'' \<mapsto> MNum r, ''JDate_of_max'' \<mapsto> MNum m, ''obj_id'' \<mapsto> MStr obj_id)\<rparr>)"
  using assms
  by (auto simp: get_data_for_id_def raise_for_data_def generator_truthy_def Let_def
      matching_files_def out_names_def split: sum.splits)

lemma get_data_for_id_rows:
  assumes "get_data_for_id tf st obj_id = Inr t"
  shows "colnames t = out_names
       \<and> rows t = concat (map (tagged_rows tf) (matching_files st obj_id))
       \<and> list_all (parses tf) (matching_files st obj_id)"
proof -
  from get_data_for_id_Inr [OF assms] obtain l r m where
    l: "for_files tf (matching_files st obj_id)
            \<lparr>out_table = Table out_names, redshift = None, max_date = None\<rparr> = Inr l"
    and t: "t = (out_table l)\<lparr>meta := (meta (out_table l))
                 (''redshift'' \<mapsto> MNum r, ''JDate_of_max'' \<mapsto> MNum m, ''obj_id'' \<mapsto> MStr obj_id)\<rparr>"
    by blast
  from for_files_rows [OF l] for_files_parses [OF l] show ?thesis
    by (simp add: t Table_def)
qed

lemma for_ids_nonempty:
  "t \<in> set (fst (for_ids tf st ids)) \<Longrightarrow> rows t \<noteq> []"
  by (induction ids) (auto simp: table_truthy_def split: sum.splits prod.splits if_splits)

subsection \<open>The example store, evaluated\<close>

lemmas example_defs = example_store_def file_a_def file_b_def file_c_def store_of_def
  spectrum_file_def header_def header_at_def

lemmas eval_defs = matching_files_def rglob_def fnmatch_def compiles_def
  is_wildcard_pattern_def parses_def spectral_table_def
  Table_read_def header_value_def lstrip_def stem_def dec_float_def digit_val_def
  add_columns_def Column_def full_def Let_def nrows_def

lemmas run_defs = get_data_for_id_def raise_for_data_def generator_truthy_def Table_def
  vstack_def realign_def merge_meta_def

lemma example_matching: "matching_files example_store ''2004ef'' = [file_a, file_b]"
  by (simp add: example_defs eval_defs)

lemma example_parses: "parses dec_float file_a" "parses dec_float file_b" "parses dec_float file_c"
  by (simp_all add: example_defs eval_defs)

lemma example_ids: "get_available_ids example_store = Inr [''2004ef'', ''2005kc'']"
  by (simp add: get_available_ids_def raise_for_data_def glob_def ishidden_def fnmatch_def
      lstrip_def example_defs)

lemma example_2004ef:
  "\<exists>t. get_data_for_id dec_float example_store ''2004ef'' = Inr t \<and> rows t =
      [[Some (Num (24532805 / 10)), Some (Num 4000), Some (Num 1), Some (Num (105 / 10)),
        Some (Str ''opt''), Some (Str ''du''), Some (Str ''wf'')],
       [Some (Num (24532805 / 10)), Some (Num 4001), Some (Num 2), Some (Num (105 / 10)),
        Some (Str ''opt''), Some (Str ''du''), Some (Str ''wf'')],
       [Some (Num (24532805 / 10)), Some (Num 9000), Some (Num 3), Some (Num (105 / 10)),
        Some (Str ''ir''), Some (Str ''bd''), Some (Str ''ld'')]]"
  by (simp add: run_defs example_defs eval_defs)

lemma example_2005kc:
  "\<exists>t. get_data_for_id dec_float example_store ''2005kc'' = Inr t \<and> rows t = []"
  by (simp add: run_defs example_defs eval_defs)

lemma example_yield:
  "length (fst (iter_data dec_float example_store False)) = 1"
  using example_2004ef example_2005kc
  by (auto simp add: iter_data_def example_ids build_pbar_def table_truthy_def)

subsection \<open>Patterns that match their own text\<close>

lemma split_nonempty: "split sep s \<noteq> []"
  by (induction s) (auto split: list.splits)

lemma hd_split: "sep \<notin> set a \<Longrightarrow> hd (split sep (a @ sep # b)) = a"
  by (induction a) (auto split: list.splits simp: split_nonempty)

lemma lstrip_SN:
  "take 1 s \<noteq> ''S'' \<Longrightarrow> take 1 s \<noteq> ''N'' \<Longrightarrow> lstrip ''SN'' (''SN'' @ s) = s"
  by (cases s) (auto simp: lstrip_def)

lemma translate_plain:
  "CHR ''['' \<notin> set s \<Longrightarrow> translate (s @ p) = map plain_item s @ translate p"
  by (induction s) (auto simp: plain_item_def)

lemma glob_match_Star_skip: "glob_match ps s \<Longrightarrow> glob_match (Star # ps) s"
  by (cases s) auto

lemma glob_match_Star_append: "glob_match ps s \<Longrightarrow> glob_match (Star # ps) (x @ s)"
  by (induction x) (auto intro: glob_match_Star_skip)

lemma glob_match_plain:
  "glob_match ps r \<Longrightarrow> glob_match (map plain_item s @ ps) (s @ r)"
  by (induction s) (auto simp: plain_item_def intro: glob_match_Star_skip)

lemma split_none: "sep \<notin> set s \<Longrightarrow> split sep s = [s]"
  by (induction s) auto

lemma has_star_star_Cons: "c \<noteq> CHR ''*'' \<Longrightarrow> has_star_star (c # s) = has_star_star s"
  by (cases s) auto

lemma has_star_star_append: "\<not> has_star_star s \<Longrightarrow> \<not> has_star_star (s @ ''_*.dat'')"
  by (induction s rule: has_star_star.induct) auto

lemma compiles_plain: "CHR ''['' \<notin> set s \<Longrightarrow> compiles s"
proof -
  assume "CHR ''['' \<notin> set s"
  from translate_plain [OF this, of "[]"] have "translate s = map plain_item s" by simp
  moreover have "list_all item_ok (map plain_item s)"
    by (induction s) (simp_all add: plain_item_def)
  ultimately show ?thesis by (simp add: compiles_def)
qed

lemma rglob_single:
  assumes "CHR ''/'' \<notin> set p" and "\<not> has_star_star p" and "compiles p"
    and "p \<noteq> []" and "p \<noteq> ''.''"
  shows "rglob name_of dir p = Inr (filter (\<lambda>f. fnmatch (name_of f) p) dir)"
proof -
  from assms(2) have "p \<noteq> ''**''" by auto
  with assms show ?thesis
    by (simp add: rglob_def split_none Let_def)
qed

lemma rglob_table:
  "rglob name_of dir ''table*.dat'' = Inr (filter (\<lambda>f. fnmatch (name_of f) ''table*.dat'') dir)"
  by (rule rglob_single) (simp_all add: compiles_def)

lemma rglob_suffix:
  assumes "CHR ''/'' \<notin> set suffix" and "\<not> has_star_star suffix" and "CHR ''['' \<notin> set suffix"
  shows "rglob name_of dir (''SN'' @ suffix @ ''_*.dat'')
       = Inr (filter (\<lambda>f. fnmatch (name_of f) (''SN'' @ suffix @ ''_*.dat'')) dir)"
proof (rule rglob_single)
  show "CHR ''/'' \<notin> set (''SN'' @ suffix @ ''_*.dat'')" using assms(1) by simp
  show "\<not> has_star_star (''SN'' @ suffix @ ''_*.dat'')"
    using has_star_star_append [OF assms(2)] by (simp add: has_star_star_Cons)
  show "compiles (''SN'' @ suffix @ ''_*.dat'')"
    using assms(3) by (intro compiles_plain) simp
qed simp_all

lemma fnmatch_SN_dat: "fnmatch (''SN'' @ x @ ''.dat'') ''SN*.dat''"
proof -
  have "glob_match [Lit (CHR ''.''), Lit (CHR ''d''), Lit (CHR ''a''), Lit (CHR ''t'')] ''.dat''"
    by simp
  from glob_match_Star_append [OF this, of x] show ?thesis
    by (simp add: fnmatch_def)
qed

lemma fnmatch_suffix:
  assumes "CHR ''['' \<notin> set suffix"
  shows "fnmatch (''SN'' @ suffix @ ''_'' @ rest @ ''.dat'') (''SN'' @ suffix @ ''_*.dat'')"
proof -
  have "glob_match [Lit (CHR ''.''), Lit (CHR ''d''), Lit (CHR ''a''), Lit (CHR ''t'')] ''.dat''"
    by simp
  from glob_match_Star_append [OF this, of rest]
  have "glob_match (translate ''_*.dat'') (''_'' @ rest @ ''.dat'')" by simp
  from glob_match_plain [OF this, of "''SN'' @ suffix"]
  have "glob_match (map plain_item (''SN'' @ suffix) @ translate ''_*.dat'')
          ((''SN'' @ suffix) @ ''_'' @ rest @ ''.dat'')" .
  moreover have "translate ((''SN'' @ suffix) @ ''_*.dat'')
      = map plain_item (''SN'' @ suffix) @ translate ''_*.dat''"
    using assms by (intro translate_plain) simp
  ultimately show ?thesis by (simp add: fnmatch_def)
qed

lemma example_file_a:
  "spectral_table dec_float file_a = Inr (file_a_table, 1 / 100, 2453264)"
  by (simp add: file_a_table_def example_defs eval_defs)

section \<open>The claims\<close>

text \<open>
  C1 (fails on the code). An object id that no spectral file matches should make
  \<^verbatim>\<open>get_data_for_id\<close> raise the \<^verbatim>\<open>ValueError\<close> "No data found". The guard
  \<^verbatim>\<open>if not files\<close> tests a generator object, which is always true, so the guard
  never fires: with no file the loop body never runs and the function stops at
  \<^verbatim>\<open>out_table.meta['redshift'] = redshift\<close> with \<^verbatim>\<open>UnboundLocalError\<close>. In the
  example store no file matches the id 2050zz.
\<close>

theorem get_data_for_id_no_files_unbound:
  "matching_files example_store ''2050zz'' = []
   \<and> get_data_for_id to_float example_store ''2050zz'' = Inl (UnboundLocalError ''redshift'')"
  by (simp add: get_data_for_id_def raise_for_data_def matching_files_def rglob_def fnmatch_def
      compiles_def is_wildcard_pattern_def generator_truthy_def Table_def example_defs)

text \<open>
  C2 (fails on the code). \<^verbatim>\<open>iter_data\<close> should accept a predicate and yield only the
  tables that satisfy it. Its only parameter is \<^verbatim>\<open>verbose\<close>: the call
  \<^verbatim>\<open>iter_data(filter_func=P)\<close> that the repository's tests make is rejected with
  \<^verbatim>\<open>TypeError\<close> for every predicate and every store.
\<close>

theorem iter_data_rejects_filter_func:
  "call_iter_data to_float st [(''filter_func'', ArgPredicate P)]
   = Inl (TypeError ''iter_data() got an unexpected keyword argument filter_func'')"
  by (simp add: call_iter_data_def iter_data_parameters_def)

text \<open>
  C3 (fails on the code). A table number with no file \<^verbatim>\<open>table<N>.dat\<close> should make
  \<^verbatim>\<open>load_table\<close> raise the \<^verbatim>\<open>ValueError\<close> "Table N is not available". The guard
  tests \<^verbatim>\<open>table_path.exists\<close> without calling it, so it never fires and the reader
  is called on the missing path. The example store holds only table1.dat.
\<close>

theorem load_table_missing_file:
  "map_of (table_dir example_store) ''table99.dat'' = None
   \<and> load_table example_store 99 = Inl (FileNotFoundError ''table99.dat'')"
  by (simp add: load_table_def raise_for_data_def bound_method_truthy_def ascii_read_def
      str_int_def str_nat.simps example_defs)

text \<open>
  C4 (fails on the code). \<^verbatim>\<open>get_available_tables\<close> should fail with the
  data-unavailable error when the store has not been fetched, as \<^verbatim>\<open>get_available_ids\<close>
  does. It never calls \<^verbatim>\<open>_raise_for_data\<close>: on a store that is not fetched it scans
  all the same, and on the empty, unfetched store it returns the empty list.
\<close>

theorem get_available_tables_unfetched:
  "get_available_tables to_int (st\<lparr>fetched := False\<rparr>) \<noteq> Inl DataUnavailable
   \<and> get_available_tables to_int \<lparr>fetched = False, table_dir = [], spectra_dir = []\<rparr> = Inr []
   \<and> get_available_ids \<lparr>fetched = False, table_dir = [], spectra_dir = []\<rparr>
       = Inl DataUnavailable"
proof -
  have "traverse g xs \<noteq> Inl DataUnavailable" if "\<And>x. g x \<noteq> Inl DataUnavailable"
    for g :: "string \<times> 'b \<Rightarrow> error + int" and xs
    using that by (induction xs) (auto split: sum.splits)
  then have "get_available_tables to_int (st\<lparr>fetched := False\<rparr>) \<noteq> Inl DataUnavailable"
    unfolding get_available_tables_def rglob_table by (auto split: option.splits)
  then show ?thesis
    by (simp add: get_available_tables_def rglob_table get_available_ids_def raise_for_data_def)
qed

text \<open>
  C7. When the store is fetched and the files matching an object id, of which there is
  at least one, all go through the loop body, \<^verbatim>\<open>get_data_for_id\<close> returns a table
  whose \<^verbatim>\<open>meta\<close> holds under \<^verbatim>\<open>redshift\<close> and \<^verbatim>\<open>JDate_of_max\<close> the values read from
  comment lines 1 and 2 of the LAST matching file, and under \<^verbatim>\<open>obj_id\<close> the requested
  id.
\<close>

theorem get_data_for_id_meta_last_file:
  assumes "fetched st"
    and "matching_files st obj_id \<noteq> []"
    and "list_all (parses to_float) (matching_files st obj_id)"
  shows "\<exists>t c r m.
           get_data_for_id to_float st obj_id = Inr t
         \<and> fcontent (last (matching_files st obj_id)) = Some c
         \<and> header_value to_float (comments c) 1 ''Redshift: '' = Inr r
         \<and> header_value to_float (comments c) 2 ''JDate_of_max: '' = Inr m
         \<and> meta t ''redshift'' = Some (MNum r)
         \<and> meta t ''JDate_of_max'' = Some (MNum m)
         \<and> meta t ''obj_id'' = Some (MStr obj_id)"
proof -
  let ?l0 = "\<lparr>out_table = Table out_names, redshift = None, max_date = None\<rparr> :: 'a locals"
  from for_files_total [OF assms(3)] obtain l where
    l: "for_files to_float (matching_files st obj_id) ?l0 = Inr l" by blast
  from for_files_last [OF l assms(2)] obtain sd r m where
    sd: "spectral_table to_float (last (matching_files st obj_id)) = Inr (sd, r, m)"
    and r: "redshift l = Some r" and m: "max_date l = Some m" by blast
  from spectral_table_Inr [OF sd] obtain c where
    c: "fcontent (last (matching_files st obj_id)) = Some c"
    and hr: "header_value to_float (comments c) 1 ''Redshift: '' = Inr r"
    and hm: "header_value to_float (comments c) 2 ''JDate_of_max: '' = Inr m" by blast
  note g = get_data_for_id_fetched [OF assms(1) l r m]
  show ?thesis
    by (rule exI [of _ "(out_table l)\<lparr>meta := (meta (out_table l))
                 (''redshift'' \<mapsto> MNum r, ''JDate_of_max'' \<mapsto> MNum m, ''obj_id'' \<mapsto> MStr obj_id)\<rparr>"])
       (use g c hr hm in simp)
qed

theorem get_data_for_id_meta_last_file_witness:
  "fetched example_store
   \<and> matching_files example_store ''2004ef'' = [file_a, file_b]
   \<and> list_all (parses dec_float) [file_a, file_b]
   \<and> (\<exists>t. get_data_for_id dec_float example_store ''2004ef'' = Inr t
          \<and> meta t ''redshift'' = Some (MNum (2 / 100))
          \<and> meta t ''JDate_of_max'' = Some (MNum (24532655 / 10))
          \<and> meta t ''obj_id'' = Some (MStr ''2004ef''))"
proof -
  have f: "fetched example_store" by (simp add: example_defs)
  have m: "matching_files example_store ''2004ef'' \<noteq> []" by (simp add: example_matching)
  have p: "list_all (parses dec_float) (matching_files example_store ''2004ef'')"
    by (simp add: example_matching example_parses)
  from get_data_for_id_meta_last_file [OF f m p] obtain t c r m where
    t: "get_data_for_id dec_float example_store ''2004ef'' = Inr t"
    and c: "fcontent (last (matching_files example_store ''2004ef'')) = Some c"
    and r: "header_value dec_float (comments c) 1 ''Redshift: '' = Inr r"
    and m: "header_value dec_float (comments c) 2 ''JDate_of_max: '' = Inr m"
    and mt: "meta t ''redshift'' = Some (MNum r)" "meta t ''JDate_of_max'' = Some (MNum m)"
        "meta t ''obj_id'' = Some (MStr ''2004ef'')"
    by blast
  from c have c': "comments c = header_at ''0.02'' ''2453265.5''"
    by (auto simp: example_matching file_b_def spectrum_file_def)
  from r have "r = 2 / 100"
    by (simp add: c' header_at_def header_value_def lstrip_def dec_float_def digit_val_def Let_def)
  moreover from m have "m = 24532655 / 10"
    by (simp add: c' header_at_def header_value_def lstrip_def dec_float_def digit_val_def Let_def)
  ultimately show ?thesis using f t mt example_matching example_parses by simp
qed

text \<open>
  C8. Under the same conditions the table \<^verbatim>\<open>get_data_for_id\<close> returns has as many rows
  as the matching files have data rows together.
\<close>

theorem get_data_for_id_row_count:
  assumes "fetched st"
    and "matching_files st obj_id \<noteq> []"
    and "list_all (parses to_float) (matching_files st obj_id)"
  shows "\<exists>t. get_data_for_id to_float st obj_id = Inr t
           \<and> length (rows t) = sum_list (map nrows (matching_files st obj_id))"
proof -
  let ?l0 = "\<lparr>out_table = Table out_names, redshift = None, max_date = None\<rparr> :: 'a locals"
  from for_files_total [OF assms(3)] obtain l where
    l: "for_files to_float (matching_files st obj_id) ?l0 = Inr l" by blast
  from for_files_last [OF l assms(2)] obtain r m where
    r: "redshift l = Some r" and m: "max_date l = Some m" by blast
  from for_files_length [OF l]
  have "length (rows (out_table l)) = sum_list (map nrows (matching_files st obj_id))"
    by (simp add: Table_def)
  with get_data_for_id_fetched [OF assms(1) l r m] show ?thesis by simp
qed

theorem get_data_for_id_row_count_witness:
  "fetched example_store
   \<and> matching_files example_store ''2004ef'' = [file_a, file_b]
   \<and> list_all (parses dec_float) [file_a, file_b]
   \<and> nrows file_a = 2 \<and> nrows file_b = 1
   \<and> (\<exists>t. get_data_for_id dec_float example_store ''2004ef'' = Inr t \<and> length (rows t) = 3)"
proof -
  have f: "fetched example_store" by (simp add: example_defs)
  have m: "matching_files example_store ''2004ef'' \<noteq> []" by (simp add: example_matching)
  have p: "list_all (parses dec_float) (matching_files example_store ''2004ef'')"
    by (simp add: example_matching example_parses)
  have n: "nrows file_a = 2" "nrows file_b = 1" by (simp_all add: nrows_def example_defs)
  from get_data_for_id_row_count [OF f m p] n f example_parses show ?thesis
    by (simp add: example_matching)
qed

text \<open>
  C9. Whatever the store, no table that \<^verbatim>\<open>iter_data\<close> yields has zero rows: an object
  whose table is empty is skipped. (In the example store the object 2005kc has an empty
  table, and one table is yielded for two ids.)
\<close>

theorem iter_data_no_empty_table:
  "\<forall>t \<in> set (fst (iter_data to_float st verbose)). rows t \<noteq> []"
  by (auto simp: iter_data_def dest: for_ids_nonempty split: sum.splits)

theorem iter_data_no_empty_table_witness:
  "get_available_ids example_store = Inr [''2004ef'', ''2005kc'']
   \<and> length (fst (iter_data dec_float example_store False)) = 1
   \<and> [] \<notin> set (map rows (fst (iter_data dec_float example_store False)))"
  using example_ids example_yield iter_data_no_empty_table [of dec_float example_store False]
  by auto

text \<open>
  C5 (as amended). The claim, that all four header values and two of the three codes
  are spread over the rows, fails: the loop body adds five columns, the observation
  date, the epoch and ALL three codes of the file name, the wavelength range among
  them; the redshift and the date of maximum go to no column. For every file the loop
  body accepts, the table it builds has the columns wavelength, flux, date, epoch,
  wavelength_range, telescope, instrument, and each row is a data row of the file
  followed by the observation date and epoch of comment lines 3 and 4 and by the third,
  fourth and fifth part of the file stem.
\<close>

theorem spectral_table_broadcast:
  assumes "spectral_table to_float f = Inr (t, r, m)"
  shows "\<exists>c obs ep a b wr tel ins.
           fcontent f = Some c
         \<and> header_value to_float (comments c) 3 ''JDate_of_observation: '' = Inr obs
         \<and> header_value to_float (comments c) 4 ''Epoch: '' = Inr ep
         \<and> split (CHR ''_'') (stem (fname f)) = [a, b, wr, tel, ins]
         \<and> colnames t = [''wavelength'', ''flux'', ''date'', ''epoch'',
                          ''wavelength_range'', ''telescope'', ''instrument'']
         \<and> rows t = map (\<lambda>(w, fl). [Some (Num w), Some (Num fl), Some (Num obs), Some (Num ep),
                                     Some (Str wr), Some (Str tel), Some (Str ins)]) (data c)"
  using spectral_table_Inr [OF assms] unfolding file_names_def by blast

theorem spectral_table_broadcast_witness:
  "(\<exists>t. spectral_table dec_float file_a = Inr (t, 1 / 100, 2453264)
     \<and> colnames t = [''wavelength'', ''flux'', ''date'', ''epoch'',
                          ''wavelength_range'', ''telescope'', ''instrument'']
     \<and> rows t = [[Some (Num 4000), Some (Num 1), Some (Num (24532805 / 10)),
                    Some (Num (105 / 10)), Some (Str ''opt''), Some (Str ''du''), Some (Str ''wf'')],
                   [Some (Num 4001), Some (Num 2), Some (Num (24532805 / 10)),
                    Some (Num (105 / 10)), Some (Str ''opt''), Some (Str ''du''), Some (Str ''wf'')]])"
proof -
  from example_file_a obtain t where
    t: "spectral_table dec_float file_a = Inr (t, 1 / 100, 2453264)" by blast
  from spectral_table_broadcast [OF t] obtain c obs ep a b wr tel ins where
    c: "fcontent file_a = Some c"
    and h: "header_value dec_float (comments c) 3 ''JDate_of_observation: '' = Inr obs"
      "header_value dec_float (comments c) 4 ''Epoch: '' = Inr ep"
      "split (CHR ''_'') (stem (fname file_a)) = [a, b, wr, tel, ins]"
    and cn: "colnames t = [''wavelength'', ''flux'', ''date'', ''epoch'',
                          ''wavelength_range'', ''telescope'', ''instrument'']"
    and rows: "rows t = map (\<lambda>(w, fl). [Some (Num w), Some (Num fl), Some (Num obs), Some (Num ep),
                                     Some (Str wr), Some (Str tel), Some (Str ins)]) (data c)"
    by blast
  from c have c': "c = \<lparr>comments = header_at ''0.01'' ''2453264.0'', data = [(4000, 1), (4001, 2)]\<rparr>"
    by (simp add: file_a_def spectrum_file_def)
  from h have "obs = 24532805 / 10" "ep = 105 / 10" "wr = ''opt''" "tel = ''du''" "ins = ''wf''"
    by (simp_all add: c' header_at_def header_value_def lstrip_def dec_float_def digit_val_def
        Let_def stem_def file_a_def spectrum_file_def)
  with rows have "rows t = [[Some (Num 4000), Some (Num 1), Some (Num (24532805 / 10)),
                    Some (Num (105 / 10)), Some (Str ''opt''), Some (Str ''du''), Some (Str ''wf'')],
                   [Some (Num 4001), Some (Num 2), Some (Num (24532805 / 10)),
                    Some (Num (105 / 10)), Some (Str ''opt''), Some (Str ''du''), Some (Str ''wf'')]]"
    by (simp add: c')
  with t cn show ?thesis by blast
qed

text \<open>
  The claim as stated, refuted on \<open>file_a\<close>: the wavelength range is in every row, and
  neither the redshift 0.01 nor the date of maximum 2453264.0 is in any.
\<close>

theorem spectral_table_broadcast_counterexample:
  "spectral_table dec_float file_a = Inr (file_a_table, 1 / 100, 2453264)
   \<and> column file_a_table ''wavelength_range'' = [Some (Str ''opt''), Some (Str ''opt'')]
   \<and> ''redshift'' \<notin> set (colnames file_a_table)
   \<and> ''JDate_of_max'' \<notin> set (colnames file_a_table)
   \<and> Some (Num (1 / 100)) \<notin> set (concat (rows file_a_table))
   \<and> Some (Num 2453264) \<notin> set (concat (rows file_a_table))"
  by (simp add: example_file_a) (simp add: file_a_table_def column_def realign_def)

text \<open>
  C6 (as amended). The scenario as stated fails: the id 1999aa gives the pattern
  \<^verbatim>\<open>SN99aa_*.dat\<close>, which matches neither \<^verbatim>\<open>SN1999aa_ref_opt_tel1_inst1.dat\<close> nor
  \<^verbatim>\<open>SN1999aa_ref_ir_tel2_inst2.dat\<close>. With the files named after the id as the code
  names them, \<^verbatim>\<open>SN99aa_ref_opt_tel1_inst1.dat\<close> and \<^verbatim>\<open>SN99aa_ref_ir_tel2_inst2.dat\<close>,
  each with a first comment line, the four header lines and three data rows, in either
  order,
  \<^verbatim>\<open>get_data_for_id("1999aa")\<close> returns a table of six rows whose \<^verbatim>\<open>meta\<close> has
  \<^verbatim>\<open>obj_id\<close> 1999aa and \<^verbatim>\<open>redshift\<close> 0.01 and whose column \<^verbatim>\<open>wavelength_range\<close> holds
  exactly the values opt and ir.
\<close>

theorem scenario_99aa:
  assumes "length d1 = 3" and "length d2 = 3"
    and "files = [spectrum_file ''SN99aa_ref_opt_tel1_inst1.dat'' (header first_opt) d1,
                  spectrum_file ''SN99aa_ref_ir_tel2_inst2.dat'' (header first_ir) d2]
       \<or> files = [spectrum_file ''SN99aa_ref_ir_tel2_inst2.dat'' (header first_ir) d2,
                  spectrum_file ''SN99aa_ref_opt_tel1_inst1.dat'' (header first_opt) d1]"
  shows "\<exists>t. get_data_for_id dec_float (store_of files) ''1999aa'' = Inr t
           \<and> length (rows t) = 6
           \<and> meta t ''obj_id'' = Some (MStr ''1999aa'')
           \<and> meta t ''redshift'' = Some (MNum (1 / 100))
           \<and> set (column t ''wavelength_range'') = {Some (Str ''opt''), Some (Str ''ir'')}"
proof -
  from assms(1) obtain x1 x2 x3 where d1: "d1 = [x1, x2, x3]"
    by (auto simp: numeral_3_eq_3 length_Suc_conv)
  from assms(2) obtain y1 y2 y3 where d2: "d2 = [y1, y2, y3]"
    by (auto simp: numeral_3_eq_3 length_Suc_conv)
  from assms(3) show ?thesis
  proof
    assume "files = [spectrum_file ''SN99aa_ref_opt_tel1_inst1.dat'' (header first_opt) d1,
                  spectrum_file ''SN99aa_ref_ir_tel2_inst2.dat'' (header first_ir) d2]"
    then show ?thesis
      by (simp add: d1 d2 run_defs example_defs eval_defs column_def case_prod_beta)
  next
    assume "files = [spectrum_file ''SN99aa_ref_ir_tel2_inst2.dat'' (header first_ir) d2,
                  spectrum_file ''SN99aa_ref_opt_tel1_inst1.dat'' (header first_opt) d1]"
    then show ?thesis
      by (simp add: d1 d2 run_defs example_defs eval_defs column_def case_prod_beta insert_commute)
  qed
qed

theorem scenario_99aa_witness:
  "length scenario_opt = 3 \<and> length scenario_ir = 3
   \<and> (\<exists>t. get_data_for_id dec_float
            (store_of [spectrum_file ''SN99aa_ref_opt_tel1_inst1.dat'' (header ''SN 1999aa'') scenario_opt,
                       spectrum_file ''SN99aa_ref_ir_tel2_inst2.dat'' (header ''SN 1999aa'') scenario_ir])
            ''1999aa'' = Inr t
          \<and> length (rows t) = 6
          \<and> meta t ''obj_id'' = Some (MStr ''1999aa'')
          \<and> meta t ''redshift'' = Some (MNum (1 / 100))
          \<and> set (column t ''wavelength_range'') = {Some (Str ''opt''), Some (Str ''ir'')})"
proof -
  have l: "length scenario_opt = 3" "length scenario_ir = 3"
    by (simp_all add: scenario_opt_def scenario_ir_def)
  from scenario_99aa [OF l, where first_opt = "''SN 1999aa''" and first_ir = "''SN 1999aa''"] l
  show ?thesis by simp
qed

text \<open>The scenario as stated, with the files named SN1999aa: no file matches.\<close>

theorem scenario_1999aa_counterexample:
  "matching_files
     (store_of [spectrum_file ''SN1999aa_ref_opt_tel1_inst1.dat'' (header ''SN 1999aa'') scenario_opt,
                spectrum_file ''SN1999aa_ref_ir_tel2_inst2.dat'' (header ''SN 1999aa'') scenario_ir])
     ''1999aa'' = []
   \<and> get_data_for_id dec_float
     (store_of [spectrum_file ''SN1999aa_ref_opt_tel1_inst1.dat'' (header ''SN 1999aa'') scenario_opt,
                spectrum_file ''SN1999aa_ref_ir_tel2_inst2.dat'' (header ''SN 1999aa'') scenario_ir])
     ''1999aa'' = Inl (UnboundLocalError ''redshift'')"
  by (simp add: get_data_for_id_def raise_for_data_def matching_files_def rglob_def fnmatch_def
      compiles_def is_wildcard_pattern_def generator_truthy_def Table_def store_of_def
      spectrum_file_def)

text \<open>
  C10 (as amended). The round trip fails for a suffix that holds a character class:
  the pattern built from the id reads \<^verbatim>\<open>[a]\<close> as "the character a". For a file
  \<^verbatim>\<open>SN<suffix>_<rest>.dat\<close> of a fetched store whose suffix (the text before the first
  underscore) does not begin with S or N and holds no \<^verbatim>\<open>[\<close> and no \<^verbatim>\<open>**\<close> (nor,
  being part of a file name, a \<^verbatim>\<open>/\<close>): the id derived from the file is "20" followed by the suffix,
  \<^verbatim>\<open>get_available_ids\<close> lists it, the pattern \<^verbatim>\<open>get_data_for_id\<close> builds from it matches
  the file, and every table \<^verbatim>\<open>get_data_for_id\<close> returns for it holds the rows of the
  file, with the file's wavelengths and fluxes in columns 1 and 2.
\<close>

theorem id_round_trip:
  assumes "fetched st" and "f \<in> set (spectra_dir st)"
    and "fname f = ''SN'' @ suffix @ ''_'' @ rest @ ''.dat''"
    and "CHR ''_'' \<notin> set suffix" and "CHR ''['' \<notin> set suffix" and "CHR ''/'' \<notin> set suffix"
    and "take 1 suffix \<noteq> ''S''" and "take 1 suffix \<noteq> ''N''"
    and "\<not> has_star_star suffix"
  shows "''20'' @ lstrip ''SN'' (hd (split (CHR ''_'') (fname f))) = ''20'' @ suffix
       \<and> (\<exists>ids. get_available_ids st = Inr ids \<and> ''20'' @ suffix \<in> set ids)
       \<and> f \<in> set (matching_files st (''20'' @ suffix))
       \<and> (\<forall>t. get_data_for_id to_float st (''20'' @ suffix) = Inr t \<longrightarrow>
             colnames t = out_names
           \<and> set (tagged_rows to_float f) \<subseteq> set (rows t)
           \<and> map (\<lambda>r. (r ! 1, r ! 2)) (tagged_rows to_float f)
               = map (\<lambda>(w, fl). (Some (Num w), Some (Num fl))) (file_data f))"
proof -
  have "hd (split (CHR ''_'') ((''SN'' @ suffix) @ CHR ''_'' # rest @ ''.dat'')) = ''SN'' @ suffix"
    using assms(4) by (intro hd_split) simp
  then have hd: "hd (split (CHR ''_'') (fname f)) = ''SN'' @ suffix"
    by (simp add: assms(3))
  have id: "''20'' @ lstrip ''SN'' (hd (split (CHR ''_'') (fname f))) = ''20'' @ suffix"
    unfolding hd using lstrip_SN [OF assms(7,8)] by simp
  have "fnmatch (''SN'' @ (suffix @ ''_'' @ rest) @ ''.dat'') ''SN*.dat''"
    by (rule fnmatch_SN_dat)
  then have "fnmatch (fname f) ''SN*.dat''" by (simp add: assms(3))
  moreover have "\<not> ishidden (fname f)" by (simp add: ishidden_def assms(3))
  ultimately have "f \<in> set (glob fname (spectra_dir st) ''SN*.dat'')"
    using assms(2) by (simp add: glob_def)
  then have "''20'' @ lstrip ''SN'' (hd (split (CHR ''_'') (fname f)))
      \<in> set (remdups (map (\<lambda>f. ''20'' @ lstrip ''SN'' (hd (split (CHR ''_'') (fname f))))
               (glob fname (spectra_dir st) ''SN*.dat'')))"
    by simp
  then have ids: "\<exists>ids. get_available_ids st = Inr ids \<and> ''20'' @ suffix \<in> set ids"
    unfolding id using assms(1) by (simp add: get_available_ids_def raise_for_data_def)
  have "fnmatch (fname f) (''SN'' @ suffix @ ''_*.dat'')"
    unfolding assms(3) using assms(5) by (rule fnmatch_suffix)
  moreover have "matching_files st (''20'' @ suffix)
      = filter (\<lambda>f. fnmatch (fname f) (''SN'' @ suffix @ ''_*.dat'')) (spectra_dir st)"
    using rglob_suffix [OF assms(6,9,5), of fname "spectra_dir st"]
    by (simp add: matching_files_def)
  ultimately have mem: "f \<in> set (matching_files st (''20'' @ suffix))"
    using assms(2) by simp
  have rows: "colnames t = out_names \<and> set (tagged_rows to_float f) \<subseteq> set (rows t)
           \<and> map (\<lambda>r. (r ! 1, r ! 2)) (tagged_rows to_float f)
               = map (\<lambda>(w, fl). (Some (Num w), Some (Num fl))) (file_data f)"
    if t: "get_data_for_id to_float st (''20'' @ suffix) = Inr t" for t
  proof -
    from get_data_for_id_rows [OF t] have cn: "colnames t = out_names"
      and r: "rows t = concat (map (tagged_rows to_float) (matching_files st (''20'' @ suffix)))"
      and p: "list_all (parses to_float) (matching_files st (''20'' @ suffix))"
      by simp_all
    from p mem have "parses to_float f" by (simp add: list_all_iff)
    then obtain sd r' m where "spectral_table to_float f = Inr (sd, r', m)"
      by (auto simp: parses_def split: sum.splits)
    from tagged_rows_Inr [OF this] obtain c obs ep wr tel ins where
      "fcontent f = Some c"
      "tagged_rows to_float f = map (\<lambda>(w, fl). [Some (Num obs), Some (Num w), Some (Num fl), Some (Num ep),
                                     Some (Str wr), Some (Str tel), Some (Str ins)]) (data c)"
      by blast
    then have "map (\<lambda>r. (r ! 1, r ! 2)) (tagged_rows to_float f)
               = map (\<lambda>(w, fl). (Some (Num w), Some (Num fl))) (file_data f)"
      by (simp add: file_data_def case_prod_beta)
    moreover from r mem have "set (tagged_rows to_float f) \<subseteq> set (rows t)" by auto
    ultimately show ?thesis using cn by simp
  qed
  from id ids mem rows show ?thesis by blast
qed

theorem id_round_trip_witness:
  "fetched example_store \<and> file_a \<in> set (spectra_dir example_store)
   \<and> fname file_a = ''SN'' @ ''04ef'' @ ''_'' @ ''b01_opt_du_wf'' @ ''.dat''
   \<and> CHR ''_'' \<notin> set ''04ef'' \<and> CHR ''['' \<notin> set ''04ef'' \<and> CHR ''/'' \<notin> set ''04ef''
   \<and> take 1 ''04ef'' \<noteq> ''S'' \<and> take 1 ''04ef'' \<noteq> ''N'' \<and> \<not> has_star_star ''04ef''
   \<and> get_available_ids example_store = Inr [''2004ef'', ''2005kc'']
   \<and> file_a \<in> set (matching_files example_store ''2004ef'')
   \<and> (\<exists>t. get_data_for_id dec_float example_store ''2004ef'' = Inr t
          \<and> set (tagged_rows dec_float file_a) \<subseteq> set (rows t)
          \<and> map (\<lambda>r. (r ! 1, r ! 2)) (tagged_rows dec_float file_a)
              = [(Some (Num 4000), Some (Num 1)), (Some (Num 4001), Some (Num 2))])"
proof -
  have h: "fetched example_store" "file_a \<in> set (spectra_dir example_store)"
    "fname file_a = ''SN'' @ ''04ef'' @ ''_'' @ ''b01_opt_du_wf'' @ ''.dat''"
    "CHR ''_'' \<notin> set ''04ef''" "CHR ''['' \<notin> set ''04ef''" "CHR ''/'' \<notin> set ''04ef''"
    "take 1 ''04ef'' \<noteq> ''S''" "take 1 ''04ef'' \<noteq> ''N''" "\<not> has_star_star ''04ef''"
    by (simp_all add: example_defs)
  have d: "file_data file_a = [(4000, 1), (4001, 2)]"
    by (simp add: file_data_def example_defs)
  from example_2004ef obtain t where
    t: "get_data_for_id dec_float example_store ''2004ef'' = Inr t" by blast
  from id_round_trip [OF h, of dec_float] t d h example_ids show ?thesis
    by simp
qed

text \<open>
  The claim as stated, refuted on \<open>file_d\<close>: its suffix \<^verbatim>\<open>[a]\<close> does not begin with S
  or N, the id derived from it is \<^verbatim>\<open>20[a]\<close>, and the pattern \<^verbatim>\<open>SN[a]_*.dat\<close> does not
  match the file.
\<close>

theorem id_round_trip_counterexample:
  "fname file_d = ''SN'' @ ''[a]'' @ ''_'' @ ''b01_opt_du_wf'' @ ''.dat''
   \<and> get_available_ids (store_of [file_d]) = Inr [''20[a]'']
   \<and> matching_files (store_of [file_d]) ''20[a]'' = []
   \<and> get_data_for_id dec_float (store_of [file_d]) ''20[a]'' = Inl (UnboundLocalError ''redshift'')"
  by (simp add: file_d_def store_of_def spectrum_file_def get_available_ids_def
      raise_for_data_def glob_def ishidden_def fnmatch_def lstrip_def matching_files_def
      rglob_def compiles_def is_wildcard_pattern_def class_end_def get_data_for_id_def
      generator_truthy_def Table_def)

end
